theory Spec2Isabelle
  imports Complex_Main "HOL-Library.AList" "HOL-Library.Sublist" "HOL-Library.Word"
begin

section \<open>Python values that reach the bridge\<close>

text \<open>
  The bridge of \<^verbatim>\<open>src/main.py\<close> (class \<^verbatim>\<open>RabbitMQToInfluxBridge\<close>) receives a
  message body, decodes it, builds an InfluxDB point and acknowledges or rejects the
  delivery. The model follows \<^verbatim>\<open>_message_callback\<close> and
  \<^verbatim>\<open>_transform_to_influx_point\<close> statement by statement; every exception the
  Python can raise there is a value \<open>Inl e\<close>.
\<close>

datatype exn =
    UnicodeDecodeError
  | JSONDecodeError
  | TypeError
  | AttributeError
  | KeyError
  | ValueError
  | OverflowError
  | OtherError string

text \<open>
  A Python \<^verbatim>\<open>float\<close> is an IEEE-754 binary64. \<open>Finite m e\<close> stands for the
  number \<open>m * 2 ^ e\<close>; the sign of a zero is not kept.
\<close>

datatype pyfloat = Finite int int | PosInf | NegInf | NaN

text \<open>What \<^verbatim>\<open>json.loads\<close> returns: the keys of an object are strings, and the
  list of a \<open>PDict\<close> is the dictionary's items in iteration order.\<close>

datatype pyval =
    PNone
  | PBool bool
  | PInt int
  | PFloat pyfloat
  | PStr string
  | PList "pyval list"
  | PDict "(string \<times> pyval) list"

type_synonym bytes = "8 word list"

text \<open>A \<^verbatim>\<open>datetime\<close> object: microseconds of its calendar fields since the epoch
  and the UTC offset in seconds (\<open>None\<close> for a naive value).\<close>

datatype datetime = Datetime int "int option"

text \<open>The argument \<^verbatim>\<open>Point.time\<close> was given: integer nanoseconds or a datetime.\<close>

datatype ptime = TimeNs int | TimeDt datetime

subsection \<open>The InfluxDB point\<close>

text \<open>
  \<^verbatim>\<open>influxdb_client.Point\<close> keeps a name, a time and two dictionaries;
  \<^verbatim>\<open>tag\<close> and \<^verbatim>\<open>field\<close> are dictionary assignments, \<^verbatim>\<open>time\<close> stores its
  argument. A Python dictionary assignment replaces the value of a present key in
  place and appends an absent key, which is \<^const>\<open>AList.update\<close>.
\<close>

record point =
  pt_name :: string
  pt_time :: "ptime option"
  pt_tags :: "(string \<times> string) list"
  pt_fields :: "(string \<times> pyval) list"

definition new_point :: "string \<Rightarrow> point" where
  "new_point nm = \<lparr>pt_name = nm, pt_time = None, pt_tags = [], pt_fields = []\<rparr>"

definition point_time :: "ptime \<Rightarrow> point \<Rightarrow> point" where
  "point_time t p = p\<lparr>pt_time := Some t\<rparr>"

definition point_tag :: "string \<Rightarrow> string \<Rightarrow> point \<Rightarrow> point" where
  "point_tag k v p = p\<lparr>pt_tags := AList.update k v (pt_tags p)\<rparr>"

definition point_field :: "string \<Rightarrow> pyval \<Rightarrow> point \<Rightarrow> point" where
  "point_field k v p = p\<lparr>pt_fields := AList.update k v (pt_fields p)\<rparr>"

subsection \<open>Configuration, delivery and environment\<close>

text \<open>
  The keys of one entry of \<^verbatim>\<open>topics\<close> that the callback reads with
  \<^verbatim>\<open>topic_config.get\<close>. \<open>None\<close> is an absent (or null) key; an absent
  \<^verbatim>\<open>tags\<close> or \<^verbatim>\<open>field_mapping\<close> is the empty dictionary.
\<close>

record topic_config =
  tc_measurement :: "string option"
  tc_tags :: "(string \<times> string) list"
  tc_field_mapping :: "(string \<times> string) list"
  tc_influx_bucket :: "string option"

text \<open>\<^verbatim>\<open>self.config['influxdb']['bucket']\<close>: \<open>None\<close> when the key is absent.\<close>

record config =
  influxdb_bucket :: "string option"

text \<open>The \<^verbatim>\<open>method\<close> frame of a delivery.\<close>

record delivery =
  routing_key :: string
  exchange :: string
  delivery_tag :: nat

text \<open>
  Library calls and the outside world, as the callback sees them:
  \<^verbatim>\<open>bytes.decode('utf-8')\<close> (\<open>None\<close> is \<^verbatim>\<open>UnicodeDecodeError\<close>),
  \<^verbatim>\<open>json.loads\<close>, \<^verbatim>\<open>datetime.fromisoformat\<close> (\<open>None\<close> is \<^verbatim>\<open>ValueError\<close>),
  \<^verbatim>\<open>str\<close> of a list or dictionary, the clock read by \<^verbatim>\<open>datetime.utcnow()\<close>,
  and \<^verbatim>\<open>write_api.write\<close> (\<open>Some e\<close> when it raises).
\<close>

record env =
  utf8_decode :: "bytes \<Rightarrow> string option"
  json_loads :: "string \<Rightarrow> exn + pyval"
  fromisoformat :: "string \<Rightarrow> datetime option"
  py_repr :: "pyval \<Rightarrow> string"
  utcnow :: datetime
  store_write :: "string \<Rightarrow> point \<Rightarrow> exn option"

text \<open>What the callback does to the broker channel and the store, in order.\<close>

datatype event =
    Write string point
  | Ack nat
  | Nack nat bool

section \<open>Built-in operations\<close>

text \<open>\<^verbatim>\<open>s.replace(c, new)\<close> for a one-character pattern: every occurrence.\<close>

definition str_replace :: "char \<Rightarrow> string \<Rightarrow> string \<Rightarrow> string" where
  "str_replace c new s = concat (map (\<lambda>x. if x = c then new else [x]) s)"

text \<open>\<^verbatim>\<open>key in v\<close>: key membership for a dictionary, substring for a string,
  element for a list, \<^verbatim>\<open>TypeError\<close> otherwise.\<close>

fun py_contains :: "string \<Rightarrow> pyval \<Rightarrow> exn + bool" where
  "py_contains k (PDict items) = Inr (k \<in> set (map fst items))"
| "py_contains k (PStr s) = Inr (sublist k s)"
| "py_contains k (PList xs) = Inr (PStr k \<in> set xs)"
| "py_contains k v = Inl TypeError"

text \<open>\<^verbatim>\<open>v[key]\<close> with a string key.\<close>

fun py_getitem :: "pyval \<Rightarrow> string \<Rightarrow> exn + pyval" where
  "py_getitem (PDict items) k =
     (case map_of items k of Some v \<Rightarrow> Inr v | None \<Rightarrow> Inl KeyError)"
| "py_getitem v k = Inl TypeError"

text \<open>\<^verbatim>\<open>v.items()\<close>.\<close>

fun py_items :: "pyval \<Rightarrow> exn + (string \<times> pyval) list" where
  "py_items (PDict items) = Inr items"
| "py_items v = Inl AttributeError"

text \<open>\<^verbatim>\<open>isinstance(v, (int, float))\<close>: \<^verbatim>\<open>bool\<close> is a subclass of \<^verbatim>\<open>int\<close>.\<close>

fun isinstance_int_float :: "pyval \<Rightarrow> bool" where
  "isinstance_int_float (PInt i) = True"
| "isinstance_int_float (PBool b) = True"
| "isinstance_int_float (PFloat f) = True"
| "isinstance_int_float v = False"

fun isinstance_bool :: "pyval \<Rightarrow> bool" where
  "isinstance_bool (PBool b) = True"
| "isinstance_bool v = False"

text \<open>\<^verbatim>\<open>str(v)\<close> on the values that reach it (neither numbers nor booleans).\<close>

fun py_str :: "env \<Rightarrow> pyval \<Rightarrow> string" where
  "py_str E (PStr s) = s"
| "py_str E PNone = ''None''"
| "py_str E v = py_repr E v"

subsection \<open>Double-precision arithmetic of the timestamp conversion\<close>

text \<open>\<^verbatim>\<open>int.bit_length\<close> of a natural number.\<close>

fun bit_length :: "nat \<Rightarrow> nat" where
  "bit_length n = (if n = 0 then 0 else Suc (bit_length (n div 2)))"

declare bit_length.simps [simp del]

text \<open>\<open>m / 2 ^ s\<close> rounded to the nearest integer, ties to even.\<close>

definition round_half_even :: "int \<Rightarrow> nat \<Rightarrow> int" where
  "round_half_even m s =
     (let q = m div 2 ^ s; r = m mod 2 ^ s in
      if 2 * r > 2 ^ s \<or> (2 * r = 2 ^ s \<and> q mod 2 = 1) then q + 1 else q)"

text \<open>
  The binary64 nearest to \<open>m * 2 ^ e\<close>: at most 53 significant bits, no exponent
  below \<open>-1074\<close>, and an infinity from \<open>2 ^ 1024\<close> on.
\<close>

definition round_double :: "int \<Rightarrow> int \<Rightarrow> pyfloat" where
  "round_double m e =
     (let s = nat (max (int (bit_length (nat \<bar>m\<bar>)) - 53) (- 1074 - e));
          m' = round_half_even m s;
          e' = e + int s in
      if int (bit_length (nat \<bar>m'\<bar>)) + e' > 1024
      then (if m' > 0 then PosInf else NegInf)
      else Finite m' e')"

text \<open>\<^verbatim>\<open>t * 1000000000\<close> for a float \<open>t\<close>: the integer converts to a float exactly.\<close>

fun float_times_1e9 :: "pyfloat \<Rightarrow> pyfloat" where
  "float_times_1e9 (Finite m e) = round_double (m * 1000000000) e"
| "float_times_1e9 PosInf = PosInf"
| "float_times_1e9 NegInf = NegInf"
| "float_times_1e9 NaN = NaN"

text \<open>\<^verbatim>\<open>int(x)\<close> for a float: truncation toward zero.\<close>

fun float_to_int :: "pyfloat \<Rightarrow> exn + int" where
  "float_to_int (Finite m e) =
     (if e \<ge> 0 then Inr (m * 2 ^ nat e)
      else Inr (sgn m * (\<bar>m\<bar> div 2 ^ nat (- e))))"
| "float_to_int PosInf = Inl OverflowError"
| "float_to_int NegInf = Inl OverflowError"
| "float_to_int NaN = Inl ValueError"

text \<open>The rational number a finite float stands for.\<close>

fun float_val :: "pyfloat \<Rightarrow> rat" where
  "float_val (Finite m e) =
     (if e \<ge> 0 then of_int (m * 2 ^ nat e) else of_int m / 2 ^ nat (- e))"
| "float_val f = 0"

text \<open>\<^verbatim>\<open>int(v * 1000000000)\<close> for a value that passed the \<^verbatim>\<open>isinstance\<close> test.\<close>

fun to_nanoseconds :: "pyval \<Rightarrow> exn + int" where
  "to_nanoseconds (PInt i) = Inr (i * 1000000000)"
| "to_nanoseconds (PBool b) = Inr ((if b then 1 else 0) * 1000000000)"
| "to_nanoseconds (PFloat f) = float_to_int (float_times_1e9 f)"
| "to_nanoseconds v = Inl TypeError"

section \<open>The transformation\<close>

text \<open>Line 207: \<^verbatim>\<open>topic_config.get('measurement') or
  method.routing_key.replace('.', '_')\<close>; an empty string is falsy.\<close>

definition measurement_name :: "topic_config \<Rightarrow> delivery \<Rightarrow> string" where
  "measurement_name tc m =
     (case tc_measurement tc of
        Some s \<Rightarrow> if s \<noteq> [] then s else str_replace CHR ''.'' ''_'' (routing_key m)
      | None \<Rightarrow> str_replace CHR ''.'' ''_'' (routing_key m))"

text \<open>Lines 216 to 221, the body of the inner \<^verbatim>\<open>try\<close>.\<close>

definition parse_timestamp :: "env \<Rightarrow> pyval \<Rightarrow> exn + ptime" where
  "parse_timestamp E msg =
     (case py_getitem msg ''timestamp'' of
        Inl e \<Rightarrow> Inl e
      | Inr ts \<Rightarrow>
          if isinstance_int_float ts then
            (case to_nanoseconds ts of Inl e \<Rightarrow> Inl e | Inr n \<Rightarrow> Inr (TimeNs n))
          else
            (case ts of
               PStr s \<Rightarrow>
                 (case fromisoformat E (str_replace CHR ''Z'' ''+00:00'' s) of
                    Some dt \<Rightarrow> Inr (TimeDt dt)
                  | None \<Rightarrow> Inl ValueError)
             | _ \<Rightarrow> Inl AttributeError))"

text \<open>Lines 213 to 227: the bare \<^verbatim>\<open>except\<close> turns every failure of the inner
  \<^verbatim>\<open>try\<close> into the current time; the membership test is outside it.\<close>

definition resolve_time :: "env \<Rightarrow> pyval \<Rightarrow> exn + ptime" where
  "resolve_time E msg =
     (case py_contains ''timestamp'' msg of
        Inl e \<Rightarrow> Inl e
      | Inr present \<Rightarrow>
          if present then
            (case parse_timestamp E msg of
               Inr t \<Rightarrow> Inr t
             | Inl e \<Rightarrow> Inr (TimeDt (utcnow E)))
          else Inr (TimeDt (utcnow E)))"

text \<open>Lines 230 to 236.\<close>

definition add_tags :: "topic_config \<Rightarrow> delivery \<Rightarrow> point \<Rightarrow> point" where
  "add_tags tc m p =
     point_tag ''exchange'' (exchange m)
       (point_tag ''routing_key'' (routing_key m)
          (fold (\<lambda>(k, v). point_tag k v) (tc_tags tc) p))"

text \<open>Line 246: \<^verbatim>\<open>field_mapping.get(key, key)\<close>.\<close>

definition field_name :: "topic_config \<Rightarrow> string \<Rightarrow> string" where
  "field_name tc k = (case map_of (tc_field_mapping tc) k of Some d \<Rightarrow> d | None \<Rightarrow> k)"

text \<open>Lines 249 to 254: the value handed to \<^verbatim>\<open>point.field\<close>.\<close>

definition field_value :: "env \<Rightarrow> pyval \<Rightarrow> pyval" where
  "field_value E v =
     (if isinstance_int_float v then v
      else if isinstance_bool v then v
      else PStr (py_str E v))"

text \<open>One round of the loop of line 241.\<close>

definition add_field :: "env \<Rightarrow> topic_config \<Rightarrow> string \<times> pyval \<Rightarrow> point \<Rightarrow> point" where
  "add_field E tc kv p =
     (if fst kv = ''timestamp'' then p
      else point_field (field_name tc (fst kv)) (field_value E (snd kv)) p)"

text \<open>The body of the outer \<^verbatim>\<open>try\<close> of \<^verbatim>\<open>_transform_to_influx_point\<close>.\<close>

definition build_point :: "env \<Rightarrow> pyval \<Rightarrow> topic_config \<Rightarrow> delivery \<Rightarrow> exn + point" where
  "build_point E msg tc m =
     (case resolve_time E msg of
        Inl e \<Rightarrow> Inl e
      | Inr t \<Rightarrow>
          (let p = add_tags tc m (point_time t (new_point (measurement_name tc m))) in
           case py_items msg of
             Inl e \<Rightarrow> Inl e
           | Inr items \<Rightarrow> Inr (fold (add_field E tc) items p)))"

text \<open>Lines 203 to 260: any exception is logged and \<^verbatim>\<open>None\<close> returned.\<close>

definition transform_to_influx_point ::
  "env \<Rightarrow> pyval \<Rightarrow> topic_config \<Rightarrow> delivery \<Rightarrow> point option" where
  "transform_to_influx_point E msg tc m =
     (case build_point E msg tc m of Inl e \<Rightarrow> None | Inr p \<Rightarrow> Some p)"

section \<open>The message callback\<close>

text \<open>Lines 179 to 183: only \<^verbatim>\<open>json.JSONDecodeError\<close> is caught, and the handler
  decodes the body again.\<close>

definition parse_message :: "env \<Rightarrow> bytes \<Rightarrow> exn + pyval" where
  "parse_message E body =
     (case utf8_decode E body of
        None \<Rightarrow> Inl UnicodeDecodeError
      | Some text \<Rightarrow>
          (case json_loads E text of
             Inr v \<Rightarrow> Inr v
           | Inl e \<Rightarrow>
               if e = JSONDecodeError then
                 (case utf8_decode E body of
                    None \<Rightarrow> Inl UnicodeDecodeError
                  | Some raw \<Rightarrow> Inr (PDict [(''raw_message'', PStr raw)]))
               else Inl e))"

text \<open>Line 190: \<^verbatim>\<open>topic_config.get('influx_bucket') or
  self.config['influxdb']['bucket']\<close>; the right operand is evaluated only when the
  left one is falsy.\<close>

definition resolve_bucket :: "config \<Rightarrow> topic_config \<Rightarrow> exn + string" where
  "resolve_bucket cfg tc =
     (let dflt = (case influxdb_bucket cfg of Some d \<Rightarrow> Inr d | None \<Rightarrow> Inl KeyError) in
      case tc_influx_bucket tc of
        Some b \<Rightarrow> if b \<noteq> [] then Inr b else dflt
      | None \<Rightarrow> dflt)"

text \<open>Lines 177 to 196, the body of the outer \<^verbatim>\<open>try\<close>: the events performed and
  the exception that ended it, if any. A \<^verbatim>\<open>Point\<close> object is always truthy.\<close>

definition handle_message ::
  "env \<Rightarrow> config \<Rightarrow> delivery \<Rightarrow> bytes \<Rightarrow> topic_config \<Rightarrow> event list \<times> exn option" where
  "handle_message E cfg m body tc =
     (case parse_message E body of
        Inl e \<Rightarrow> ([], Some e)
      | Inr msg \<Rightarrow>
          (case transform_to_influx_point E msg tc m of
             None \<Rightarrow> ([Ack (delivery_tag m)], None)
           | Some p \<Rightarrow>
               (case resolve_bucket cfg tc of
                  Inl e \<Rightarrow> ([], Some e)
                | Inr b \<Rightarrow>
                    (case store_write E b p of
                       Some e \<Rightarrow> ([Write b p], Some e)
                     | None \<Rightarrow> ([Write b p, Ack (delivery_tag m)], None)))))"

text \<open>Lines 175 to 201: an exception of the body is answered by
  \<^verbatim>\<open>basic_nack(requeue=True)\<close>.\<close>

definition message_callback ::
  "env \<Rightarrow> config \<Rightarrow> delivery \<Rightarrow> bytes \<Rightarrow> topic_config \<Rightarrow> event list" where
  "message_callback E cfg m body tc =
     (case handle_message E cfg m body tc of
        (evs, None) \<Rightarrow> evs
      | (evs, Some e) \<Rightarrow> evs @ [Nack (delivery_tag m) True])"

section \<open>A concrete environment\<close>

text \<open>
  The library on the inputs of the scenarios below, as Python computes them:
  ASCII bytes decode to the same characters and the byte \<open>0xFF\<close> occurs in no UTF-8
  text; \<^verbatim>\<open>json.loads\<close> and \<^verbatim>\<open>datetime.fromisoformat\<close> are tabulated on the
  texts that are used.
\<close>

definition sample_decode :: "bytes \<Rightarrow> string option" where
  "sample_decode b =
     (if list_all (\<lambda>w. w < 128) b then Some (map (\<lambda>w. char_of (unat w)) b) else None)"

definition sample_loads :: "string \<Rightarrow> exn + pyval" where
  "sample_loads s =
     (if s = ''42'' then Inr (PInt 42)
      else if s = ''{\"temp\": 10}'' then Inr (PDict [(''temp'', PInt 10)])
      else if s = ''hi'' then Inl JSONDecodeError
      else Inl (OtherError ''not tabulated''))"

definition sample_fromisoformat :: "string \<Rightarrow> datetime option" where
  "sample_fromisoformat s =
     (if s = ''2024-01-01T00:00:00+00:00''
      then Some (Datetime 1704067200000000 (Some 0)) else None)"

text \<open>The store accepts every write when \<open>ok\<close> holds and refuses every write otherwise.\<close>

definition sample_env :: "bool \<Rightarrow> env" where
  "sample_env ok =
     \<lparr>utf8_decode = sample_decode,
      json_loads = sample_loads,
      fromisoformat = sample_fromisoformat,
      py_repr = (\<lambda>v. ''[]''),
      utcnow = Datetime 1730000000000000 None,
      store_write = (\<lambda>b p. if ok then None else Some (OtherError ''write failed''))\<rparr>"

definition sample_cfg :: config where
  "sample_cfg = \<lparr>influxdb_bucket = Some ''default''\<rparr>"

definition sample_topic :: topic_config where
  "sample_topic =
     \<lparr>tc_measurement = None,
      tc_tags = [(''site'', ''lab''), (''exchange'', ''configured'')],
      tc_field_mapping = [(''temp'', ''temperature'')],
      tc_influx_bucket = Some []\<rparr>"

definition sample_delivery :: delivery where
  "sample_delivery = \<lparr>routing_key = ''node.1.env'', exchange = ''data'', delivery_tag = 7\<rparr>"

text \<open>The point built for the body \<^verbatim>\<open>b'hi'\<close> under the sample topic and delivery.\<close>

definition sample_point :: point where
  "sample_point =
     \<lparr>pt_name = ''node_1_env'',
      pt_time = Some (TimeDt (Datetime 1730000000000000 None)),
      pt_tags = [(''site'', ''lab''), (''exchange'', ''data''), (''routing_key'', ''node.1.env'')],
      pt_fields = [(''raw_message'', PStr ''hi'')]\<rparr>"

section \<open>How a point is assembled\<close>

text \<open>
  A dictionary always yields a point, and nothing else does: the membership test or
  \<^verbatim>\<open>items()\<close> raises on every other value, and the handler returns \<^verbatim>\<open>None\<close>.
\<close>

lemma resolve_time_dict: "\<exists>t. resolve_time E (PDict items) = Inr t"
  by (simp add: resolve_time_def split: sum.splits)

lemma transform_dict:
  "resolve_time E (PDict items) = Inr t \<Longrightarrow>
   transform_to_influx_point E (PDict items) tc m =
     Some (fold (add_field E tc) items
       (add_tags tc m (point_time t (new_point (measurement_name tc m)))))"
  by (simp add: transform_to_influx_point_def build_point_def Let_def)

lemma transform_None_iff:
  "transform_to_influx_point E msg tc m = None \<longleftrightarrow> (\<forall>items. msg \<noteq> PDict items)"
proof (cases msg)
  case (PDict items)
  obtain t where "resolve_time E (PDict items) = Inr t"
    using resolve_time_dict by blast
  with PDict show ?thesis by (simp add: transform_dict)
qed (simp_all add: transform_to_influx_point_def build_point_def resolve_time_def Let_def
      split: sum.splits)

text \<open>
  Tags and fields are written to separate dictionaries; a sequence of dictionary
  assignments leaves, for each key, the value assigned last.
\<close>

lemma fold_add_field_frame:
  "pt_name (fold (add_field E tc) items p) = pt_name p
   \<and> pt_time (fold (add_field E tc) items p) = pt_time p
   \<and> pt_tags (fold (add_field E tc) items p) = pt_tags p"
  by (induction items arbitrary: p) (simp_all add: add_field_def point_field_def)

lemma fold_point_tag_frame:
  "pt_name (fold (\<lambda>(k, v). point_tag k v) ts p) = pt_name p
   \<and> pt_time (fold (\<lambda>(k, v). point_tag k v) ts p) = pt_time p
   \<and> pt_fields (fold (\<lambda>(k, v). point_tag k v) ts p) = pt_fields p"
  by (induction ts arbitrary: p) (simp_all add: point_tag_def split_beta)

lemma add_tags_frame:
  "pt_name (add_tags tc m p) = pt_name p
   \<and> pt_time (add_tags tc m p) = pt_time p
   \<and> pt_fields (add_tags tc m p) = pt_fields p"
  by (simp add: add_tags_def point_tag_def fold_point_tag_frame)

lemma fold_point_tag_map:
  "map_of (pt_tags (fold (\<lambda>(k, v). point_tag k v) ts p)) = map_of (pt_tags p) ++ map_of (rev ts)"
proof (induction ts arbitrary: p)
  case Nil
  show ?case by simp
next
  case (Cons kv ts)
  obtain k v where kv: "kv = (k, v)" by (cases kv)
  have "map_of (pt_tags (fold (\<lambda>(k, v). point_tag k v) (kv # ts) p))
      = map_of (pt_tags (point_tag k v p)) ++ map_of (rev ts)"
    by (simp add: kv Cons.IH)
  also have "\<dots> = map_of (pt_tags p) ++ map_of (rev (kv # ts))"
    by (rule ext) (simp add: kv point_tag_def update_conv' map_add_def split: option.splits)
  finally show ?case .
qed

lemma add_tags_map:
  "map_of (pt_tags (add_tags tc m p)) =
     (map_of (pt_tags p) ++ map_of (rev (tc_tags tc)))
       (''routing_key'' \<mapsto> routing_key m, ''exchange'' \<mapsto> exchange m)"
  by (simp add: add_tags_def point_tag_def update_conv' fold_point_tag_map)

lemma fold_add_field_map:
  "map_of (pt_fields (fold (add_field E tc) items p)) =
     map_of (pt_fields p) ++
     map_of (rev (map (\<lambda>kv. (field_name tc (fst kv), field_value E (snd kv)))
                    (filter (\<lambda>kv. fst kv \<noteq> ''timestamp'') items)))"
proof (induction items arbitrary: p)
  case Nil
  show ?case by simp
next
  case (Cons kv items)
  have step: "map_of (pt_fields (fold (add_field E tc) (kv # items) p)) =
      map_of (pt_fields (add_field E tc kv p)) ++
      map_of (rev (map (\<lambda>kv. (field_name tc (fst kv), field_value E (snd kv)))
                    (filter (\<lambda>kv. fst kv \<noteq> ''timestamp'') items)))"
    by (simp add: Cons.IH)
  show ?case
  proof (cases "fst kv = ''timestamp''")
    case True
    then have "add_field E tc kv p = p" by (simp add: add_field_def)
    with True step show ?thesis by simp
  next
    case False
    then have "map_of (pt_fields (add_field E tc kv p)) =
        (map_of (pt_fields p))(field_name tc (fst kv) \<mapsto> field_value E (snd kv))"
      by (simp add: add_field_def point_field_def update_conv')
    with False step show ?thesis
      by (simp only: filter.simps list.map rev.simps map_of_append if_True)
         (rule ext, simp add: map_add_def split: option.splits)
  qed
qed

lemma base_point_fields:
  "pt_fields (add_tags tc m (point_time t (new_point nm))) = []"
  by (simp add: add_tags_frame point_time_def new_point_def)

lemma field_value_cases:
  "field_value E v =
     (case v of PInt i \<Rightarrow> v | PFloat f \<Rightarrow> v | PBool b \<Rightarrow> v | _ \<Rightarrow> PStr (py_str E v))"
  by (cases v) (simp_all add: field_value_def)

lemma transform_SomeD:
  assumes "transform_to_influx_point E msg tc m = Some p"
  obtains items t where "msg = PDict items" and "resolve_time E msg = Inr t"
    and "p = fold (add_field E tc) items
       (add_tags tc m (point_time t (new_point (measurement_name tc m))))"
proof -
  from assms obtain items where d: "msg = PDict items"
    using transform_None_iff [of E msg tc m] by auto
  obtain t where t: "resolve_time E (PDict items) = Inr t"
    using resolve_time_dict by blast
  from assms d t that show ?thesis by (simp add: transform_dict)
qed

lemma dict_fields:
  assumes "transform_to_influx_point E (PDict items) tc m = Some p"
  shows "map_of (pt_fields p) =
     map_of (rev (map (\<lambda>kv. (field_name tc (fst kv), field_value E (snd kv)))
                    (filter (\<lambda>kv. fst kv \<noteq> ''timestamp'') items)))"
proof -
  from assms obtain items' t where "PDict items = PDict items'"
    and p: "p = fold (add_field E tc) items'
       (add_tags tc m (point_time t (new_point (measurement_name tc m))))"
    by (rule transform_SomeD)
  then have "items' = items" by simp
  with p show ?thesis by (simp add: fold_add_field_map base_point_fields)
qed

lemma str_replace_char:
  "str_replace c [d] s = map (\<lambda>x. if x = c then d else x) s"
  by (induction s) (simp_all add: str_replace_def)

lemma str_replace_absent: "c \<notin> set s \<Longrightarrow> str_replace c new s = s"
  by (induction s) (auto simp add: str_replace_def)

lemma str_replace_append:
  "str_replace c new (s @ t) = str_replace c new s @ str_replace c new t"
  by (simp add: str_replace_def)

lemma map_of_in_keys: "map_of items k = Some v \<Longrightarrow> k \<in> fst ` set items"
  by (metis domI dom_map_of_conv_image_fst)

lemma resolve_time_present:
  assumes "map_of items ''timestamp'' = Some ts"
  shows "resolve_time E (PDict items) =
     Inr (case parse_timestamp E (PDict items) of Inr t \<Rightarrow> t | Inl e \<Rightarrow> TimeDt (utcnow E))"
  using map_of_in_keys [OF assms]
  by (simp add: resolve_time_def split: sum.splits)

lemma transform_time:
  assumes "resolve_time E (PDict items) = Inr t"
  shows "\<exists>p. transform_to_influx_point E (PDict items) tc m = Some p \<and> pt_time p = Some t"
  by (simp add: transform_dict [OF assms] fold_add_field_frame add_tags_frame point_time_def)

section \<open>How a delivery is answered\<close>

lemma callback_no_point:
  assumes "parse_message E body = Inr msg"
    and "transform_to_influx_point E msg tc m = None"
  shows "message_callback E cfg m body tc = [Ack (delivery_tag m)]"
  using assms by (simp add: message_callback_def handle_message_def)

lemma callback_point:
  assumes "parse_message E body = Inr msg"
    and "transform_to_influx_point E msg tc m = Some p"
    and "resolve_bucket cfg tc = Inr b"
  shows "message_callback E cfg m body tc =
     (case store_write E b p of
        None \<Rightarrow> [Write b p, Ack (delivery_tag m)]
      | Some e \<Rightarrow> [Write b p, Nack (delivery_tag m) True])"
  using assms by (simp add: message_callback_def handle_message_def split: option.splits)

section \<open>The sample run\<close>

lemma sample_parse_42: "parse_message (sample_env ok) [0x34, 0x32] = Inr (PInt 42)"
  by code_simp

lemma sample_parse_hi:
  "parse_message (sample_env ok) [0x68, 0x69] = Inr (PDict [(''raw_message'', PStr ''hi'')])"
  by code_simp

lemma sample_parse_ff: "parse_message (sample_env ok) [0xFF] = Inl UnicodeDecodeError"
  by code_simp

lemma sample_decode_hi: "utf8_decode (sample_env ok) [0x68, 0x69] = Some ''hi''"
  by code_simp

lemma sample_loads_hi: "json_loads (sample_env ok) ''hi'' = Inl JSONDecodeError"
  by code_simp

lemma sample_transform_hi:
  "transform_to_influx_point (sample_env ok) (PDict [(''raw_message'', PStr ''hi'')])
     sample_topic sample_delivery = Some sample_point"
  by code_simp

lemma sample_transform_42:
  "transform_to_influx_point (sample_env ok) (PInt 42) sample_topic sample_delivery = None"
  by (simp add: transform_None_iff)

lemma sample_bucket: "resolve_bucket sample_cfg sample_topic = Inr ''default''"
  by code_simp

lemma sample_callback_42:
  "message_callback (sample_env True) sample_cfg sample_delivery [0x34, 0x32] sample_topic
     = [Ack 7]"
  using callback_no_point [OF sample_parse_42 sample_transform_42]
  by (simp add: sample_delivery_def)

text \<open>
  Two timestamps that are binary64 values: \<open>1700000000 + 2 ^ -22\<close>, whose product
  with \<open>10 ^ 9\<close> needs 83 bits, and \<open>1700000000.5\<close>, whose product is exact.
\<close>

lemma float_example_1:
  "float_to_int (float_times_1e9 (Finite 7130316800000001 (- 22))) = Inr 1700000000000000256"
  by (simp add: round_double_def round_half_even_def Let_def bit_length.simps)

lemma float_example_2:
  "float_to_int (float_times_1e9 (Finite 3400000001 (- 1))) = Inr 1700000000500000000"
  by (simp add: round_double_def round_half_even_def Let_def bit_length.simps)

section \<open>Acknowledgement\<close>

text \<open>
  Claim C1, as amended. A delivery whose body parses but whose transformation fails
  (returns no point) is not rejected: the callback performs exactly one action, the
  acknowledgement of the delivery, so nothing is written and nothing is requeued. The
  claim as stated (reject with requeue, never acknowledge) fails on such a delivery; the
  body \<^verbatim>\<open>b'42'\<close> below is one.
\<close>

theorem transform_failure_acked:
  assumes "parse_message E body = Inr msg"
    and "transform_to_influx_point E msg tc m = None"
  shows "count_list (message_callback E cfg m body tc) (Ack (delivery_tag m)) = 1
     \<and> list_all (\<lambda>ev. case ev of Ack t \<Rightarrow> True | _ \<Rightarrow> False) (message_callback E cfg m body tc)"
  using callback_no_point [OF assms] by simp

theorem transform_failure_acked_witness:
  "count_list (message_callback (sample_env True) sample_cfg sample_delivery
       [0x34, 0x32] sample_topic) (Ack 7) = 1
   \<and> list_all (\<lambda>ev. case ev of Ack t \<Rightarrow> True | _ \<Rightarrow> False)
        (message_callback (sample_env True) sample_cfg sample_delivery
           [0x34, 0x32] sample_topic)"
  using transform_failure_acked [OF sample_parse_42 [of True] sample_transform_42, of sample_cfg]
  by (simp add: sample_delivery_def)

theorem transform_failure_not_rejected_counterexample:
  "transform_to_influx_point (sample_env True) (PInt 42) sample_topic sample_delivery = None
   \<and> parse_message (sample_env True) [0x34, 0x32] = Inr (PInt 42)
   \<and> Nack 7 True \<notin> set (message_callback (sample_env True) sample_cfg sample_delivery
        [0x34, 0x32] sample_topic)
   \<and> Ack 7 \<in> set (message_callback (sample_env True) sample_cfg sample_delivery
        [0x34, 0x32] sample_topic)"
  by (simp add: sample_transform_42 sample_parse_42 sample_callback_42)

text \<open>
  Claim C2. When the body parses and the transformation yields no point, the message
  is still acknowledged: the acknowledgement is the only thing the callback does.
\<close>

theorem null_point_still_acked:
  assumes "parse_message E body = Inr msg"
    and "transform_to_influx_point E msg tc m = None"
  shows "message_callback E cfg m body tc = [Ack (delivery_tag m)]"
  using assms by (rule callback_no_point)

theorem null_point_still_acked_witness:
  "message_callback (sample_env True) sample_cfg sample_delivery [0x34, 0x32] sample_topic = [Ack 7]"
proof -
  have t: "transform_to_influx_point (sample_env True) (PInt 42) sample_topic sample_delivery = None"
    by (simp add: transform_None_iff)
  from null_point_still_acked [OF sample_parse_42 [of True] t, of sample_cfg]
  show ?thesis by (simp add: sample_delivery_def)
qed

text \<open>
  Claim C3. For a delivery with a built point \<open>p\<close> and a destination bucket \<open>b\<close>:
  if the store write raises, the callback writes and then rejects with requeue, and
  never acknowledges; if the write succeeds, it writes and then acknowledges once, and
  never rejects.
\<close>

theorem write_outcome_decides:
  assumes "parse_message E body = Inr msg"
    and "transform_to_influx_point E msg tc m = Some p"
    and "resolve_bucket cfg tc = Inr b"
  shows "message_callback E cfg m body tc =
     (case store_write E b p of
        None \<Rightarrow> [Write b p, Ack (delivery_tag m)]
      | Some e \<Rightarrow> [Write b p, Nack (delivery_tag m) True])"
  using assms by (rule callback_point)

theorem write_outcome_decides_witness:
  "message_callback (sample_env True) sample_cfg sample_delivery [0x68, 0x69] sample_topic
     = [Write ''default'' sample_point, Ack 7]
   \<and> message_callback (sample_env False) sample_cfg sample_delivery [0x68, 0x69] sample_topic
     = [Write ''default'' sample_point, Nack 7 True]"
  using write_outcome_decides [OF sample_parse_hi [of True] sample_transform_hi sample_bucket]
    write_outcome_decides [OF sample_parse_hi [of False] sample_transform_hi sample_bucket]
  by (simp add: sample_env_def sample_delivery_def)

section \<open>Parsing the body\<close>

text \<open>
  Claim C4, as amended. For a body that is valid UTF-8 but not valid JSON, the parse
  step yields the one-key object \<^verbatim>\<open>{'raw_message': text}\<close>, and the point built from
  it has exactly one field, named by the field-rename map's image of
  \<^verbatim>\<open>raw_message\<close> (the name itself if unmapped) and holding the text. The claim as
  stated also covers valid JSON that is not an object and bodies that are not UTF-8;
  there the code does not fall back: \<^verbatim>\<open>b'42'\<close> parses to the integer 42 and yields
  no point, and the single byte \<open>0xFF\<close> raises and the delivery is rejected.
\<close>

theorem raw_message_fallback:
  assumes "utf8_decode E body = Some text"
    and "json_loads E text = Inl JSONDecodeError"
  shows "parse_message E body = Inr (PDict [(''raw_message'', PStr text)])
    \<and> (\<exists>p. transform_to_influx_point E (PDict [(''raw_message'', PStr text)]) tc m = Some p
          \<and> pt_fields p =
              [(case map_of (tc_field_mapping tc) ''raw_message'' of
                  Some d \<Rightarrow> d | None \<Rightarrow> ''raw_message'', PStr text)])"
proof
  show "parse_message E body = Inr (PDict [(''raw_message'', PStr text)])"
    using assms by (simp add: parse_message_def)
next
  have "resolve_time E (PDict [(''raw_message'', PStr text)]) = Inr (TimeDt (utcnow E))"
    by (simp add: resolve_time_def)
  from transform_dict [OF this]
  show "\<exists>p. transform_to_influx_point E (PDict [(''raw_message'', PStr text)]) tc m = Some p
          \<and> pt_fields p =
              [(case map_of (tc_field_mapping tc) ''raw_message'' of
                  Some d \<Rightarrow> d | None \<Rightarrow> ''raw_message'', PStr text)]"
    by (simp add: add_field_def point_field_def base_point_fields field_name_def
        field_value_def)
qed

theorem raw_message_fallback_witness:
  "parse_message (sample_env True) [0x68, 0x69] = Inr (PDict [(''raw_message'', PStr ''hi'')])
   \<and> (\<exists>p. transform_to_influx_point (sample_env True) (PDict [(''raw_message'', PStr ''hi'')])
              sample_topic sample_delivery = Some p
          \<and> pt_fields p = [(''raw_message'', PStr ''hi'')])"
  using raw_message_fallback [OF sample_decode_hi [of True] sample_loads_hi,
      of sample_topic sample_delivery]
  by (simp add: sample_topic_def)

theorem raw_message_fallback_counterexample:
  "parse_message (sample_env True) [0x34, 0x32] = Inr (PInt 42)
   \<and> parse_message (sample_env True) [0x34, 0x32] \<noteq> Inr (PDict [(''raw_message'', PStr ''42'')])
   \<and> transform_to_influx_point (sample_env True) (PInt 42) sample_topic sample_delivery = None
   \<and> parse_message (sample_env True) [0xFF] = Inl UnicodeDecodeError
   \<and> message_callback (sample_env True) sample_cfg sample_delivery [0xFF] sample_topic
       = [Nack 7 True]"
proof -
  have "message_callback (sample_env True) sample_cfg sample_delivery [0xFF] sample_topic
       = [Nack (delivery_tag sample_delivery) True]"
    by (simp add: message_callback_def handle_message_def sample_parse_ff)
  then have "message_callback (sample_env True) sample_cfg sample_delivery [0xFF] sample_topic
       = [Nack 7 True]"
    by (simp add: sample_delivery_def)
  then show ?thesis
    by (simp add: sample_parse_42 sample_transform_42 sample_parse_ff)
qed

section \<open>Timestamp\<close>

text \<open>
  Claim C5, as amended. An integer \<^verbatim>\<open>timestamp\<close> \<open>t\<close> gives the instant
  \<open>t * 10 ^ 9\<close> nanoseconds exactly. A float \<^verbatim>\<open>timestamp\<close> gives the
  double-precision product with \<open>10 ^ 9\<close>, rounded to 53 significant bits and then
  truncated toward zero; when that product is not finite the instant is the current
  time. The claim as stated (exact to the nanosecond for every numeric value) fails for
  floats: at \<open>1700000000 + 2 ^ -22\<close> the instant is more than 17 nanoseconds off.
\<close>

theorem numeric_timestamp_instant:
  assumes "map_of items ''timestamp'' = Some (PInt t)"
    and "map_of items' ''timestamp'' = Some (PFloat f)"
  shows "(\<exists>p. transform_to_influx_point E (PDict items) tc m = Some p
            \<and> pt_time p = Some (TimeNs (t * 1000000000)))
    \<and> (\<exists>p. transform_to_influx_point E (PDict items') tc m = Some p
            \<and> pt_time p = Some (case float_to_int (float_times_1e9 f) of
                                  Inr n \<Rightarrow> TimeNs n
                                | Inl e \<Rightarrow> TimeDt (utcnow E)))"
proof
  have "resolve_time E (PDict items) = Inr (TimeNs (t * 1000000000))"
    by (simp add: resolve_time_present [OF assms(1)] parse_timestamp_def assms(1))
  then show "\<exists>p. transform_to_influx_point E (PDict items) tc m = Some p
            \<and> pt_time p = Some (TimeNs (t * 1000000000))"
    by (rule transform_time)
next
  have "resolve_time E (PDict items') =
      Inr (case float_to_int (float_times_1e9 f) of
             Inr n \<Rightarrow> TimeNs n | Inl e \<Rightarrow> TimeDt (utcnow E))"
    by (simp add: resolve_time_present [OF assms(2)] parse_timestamp_def assms(2)
        split: sum.splits)
  then show "\<exists>p. transform_to_influx_point E (PDict items') tc m = Some p
            \<and> pt_time p = Some (case float_to_int (float_times_1e9 f) of
                                  Inr n \<Rightarrow> TimeNs n
                                | Inl e \<Rightarrow> TimeDt (utcnow E))"
    by (rule transform_time)
qed

theorem numeric_timestamp_instant_witness:
  "(\<exists>p. transform_to_influx_point (sample_env True)
           (PDict [(''timestamp'', PInt 1700000000), (''temperature'', PFloat (Finite 43 (- 1)))])
           sample_topic sample_delivery = Some p
        \<and> pt_time p = Some (TimeNs 1700000000000000000))
   \<and> (\<exists>p. transform_to_influx_point (sample_env True)
           (PDict [(''timestamp'', PFloat (Finite 3400000001 (- 1)))])
           sample_topic sample_delivery = Some p
        \<and> pt_time p = Some (TimeNs 1700000000500000000))"
proof -
  have a: "map_of [(''timestamp'', PInt 1700000000), (''temperature'', PFloat (Finite 43 (- 1)))]
             ''timestamp'' = Some (PInt 1700000000)"
    by simp
  have b: "map_of [(''timestamp'', PFloat (Finite 3400000001 (- 1)))] ''timestamp''
             = Some (PFloat (Finite 3400000001 (- 1)))"
    by simp
  from numeric_timestamp_instant [OF a b, of "sample_env True" sample_topic sample_delivery]
  show ?thesis by (simp add: float_example_2 del: float_times_1e9.simps)
qed

theorem numeric_timestamp_exact_counterexample:
  "map_option pt_time
     (transform_to_influx_point (sample_env True)
        (PDict [(''timestamp'', PFloat (Finite 7130316800000001 (- 22)))])
        sample_topic sample_delivery)
     = Some (Some (TimeNs 1700000000000000256))
   \<and> bit_length 7130316800000001 = 53
   \<and> 17 < \<bar>of_int 1700000000000000256
            - float_val (Finite 7130316800000001 (- 22)) * 1000000000\<bar>"
proof -
  let ?items = "[(''timestamp'', PFloat (Finite 7130316800000001 (- 22)))]"
  have "resolve_time (sample_env True) (PDict ?items) = Inr (TimeNs 1700000000000000256)"
    by (simp add: resolve_time_def parse_timestamp_def float_example_1
        del: float_times_1e9.simps)
  from transform_time [OF this, of sample_topic sample_delivery]
  have "map_option pt_time
     (transform_to_influx_point (sample_env True) (PDict ?items) sample_topic sample_delivery)
     = Some (Some (TimeNs 1700000000000000256))"
    by auto
  moreover have "bit_length 7130316800000001 = 53"
    by (simp add: bit_length.simps)
  moreover have "(17::rat) < \<bar>of_int 1700000000000000256
            - float_val (Finite 7130316800000001 (- 22)) * 1000000000\<bar>"
    by simp
  ultimately show ?thesis by simp
qed

text \<open>
  Claim C7. A string \<^verbatim>\<open>timestamp\<close> is handed to the ISO-8601 parser with
  \<^verbatim>\<open>Z\<close> replaced by \<^verbatim>\<open>+00:00\<close>, and the point's instant is the parsed value, or
  the current time when parsing fails. The replacement turns a trailing \<^verbatim>\<open>Z\<close> into
  the offset \<^verbatim>\<open>+00:00\<close> and leaves a string without \<^verbatim>\<open>Z\<close> as it is.
\<close>

theorem iso_timestamp_instant:
  assumes "map_of items ''timestamp'' = Some (PStr s)"
    and "CHR ''Z'' \<notin> set u"
  shows "(\<exists>p. transform_to_influx_point E (PDict items) tc m = Some p
            \<and> pt_time p = Some (TimeDt
                 (case fromisoformat E (str_replace CHR ''Z'' ''+00:00'' s) of
                    Some dt \<Rightarrow> dt
                  | None \<Rightarrow> utcnow E)))
    \<and> str_replace CHR ''Z'' ''+00:00'' (u @ ''Z'') = u @ ''+00:00''
    \<and> str_replace CHR ''Z'' ''+00:00'' u = u"
proof (intro conjI)
  have "resolve_time E (PDict items) =
      Inr (TimeDt (case fromisoformat E (str_replace CHR ''Z'' ''+00:00'' s) of
                    Some dt \<Rightarrow> dt | None \<Rightarrow> utcnow E))"
    by (simp add: resolve_time_present [OF assms(1)] parse_timestamp_def assms(1)
        split: option.splits)
  then show "\<exists>p. transform_to_influx_point E (PDict items) tc m = Some p
            \<and> pt_time p = Some (TimeDt
                 (case fromisoformat E (str_replace CHR ''Z'' ''+00:00'' s) of
                    Some dt \<Rightarrow> dt
                  | None \<Rightarrow> utcnow E))"
    by (rule transform_time)
next
  show "str_replace CHR ''Z'' ''+00:00'' u = u"
    using assms(2) by (rule str_replace_absent)
  then show "str_replace CHR ''Z'' ''+00:00'' (u @ ''Z'') = u @ ''+00:00''"
    by (simp add: str_replace_append) (simp add: str_replace_def)
qed

theorem iso_timestamp_instant_witness:
  "(\<exists>p. transform_to_influx_point (sample_env True)
           (PDict [(''timestamp'', PStr ''2024-01-01T00:00:00Z''), (''temp'', PInt 10)])
           sample_topic sample_delivery = Some p
        \<and> pt_time p = Some (TimeDt (Datetime 1704067200000000 (Some 0))))
   \<and> str_replace CHR ''Z'' ''+00:00'' ''2024-01-01T00:00:00Z'' = ''2024-01-01T00:00:00+00:00''"
proof -
  have a: "map_of [(''timestamp'', PStr ''2024-01-01T00:00:00Z''), (''temp'', PInt 10)]
             ''timestamp'' = Some (PStr ''2024-01-01T00:00:00Z'')"
    by simp
  have b: "CHR ''Z'' \<notin> set ''2024-01-01T00:00:00''"
    by simp
  from iso_timestamp_instant [OF a b, of "sample_env True" sample_topic sample_delivery]
  show ?thesis by (simp add: sample_env_def sample_fromisoformat_def str_replace_def)
qed

section \<open>Measurement, tags and fields\<close>

text \<open>
  Claim C6, as amended. The measurement name of a built point is the override when
  one is configured and not empty, and otherwise the routing key with every dot
  replaced by an underscore; it is empty exactly when no non-empty override is
  configured and the routing key is empty. The claim as stated (never empty) fails for
  a delivery with the empty routing key.
\<close>

theorem measurement_name_rule:
  assumes "transform_to_influx_point E msg tc m = Some p"
  shows "pt_name p =
      (case tc_measurement tc of
         None \<Rightarrow> map (\<lambda>c. if c = CHR ''.'' then CHR ''_'' else c) (routing_key m)
       | Some s \<Rightarrow> if s = [] then map (\<lambda>c. if c = CHR ''.'' then CHR ''_'' else c) (routing_key m)
                   else s)
    \<and> (pt_name p = []) =
        ((tc_measurement tc = None \<or> tc_measurement tc = Some []) \<and> routing_key m = [])"
proof -
  from assms obtain items t where
    p: "p = fold (add_field E tc) items
       (add_tags tc m (point_time t (new_point (measurement_name tc m))))"
    by (rule transform_SomeD)
  have "pt_name p = measurement_name tc m"
    by (simp add: p fold_add_field_frame add_tags_frame point_time_def new_point_def)
  then show ?thesis
    by (auto simp add: measurement_name_def str_replace_char split: option.splits)
qed

theorem measurement_name_rule_witness:
  "pt_name sample_point = ''node_1_env'' \<and> pt_name sample_point \<noteq> []"
  using measurement_name_rule [OF sample_transform_hi [of True]]
  by (simp add: sample_topic_def sample_delivery_def)

theorem measurement_never_empty_counterexample:
  "map_option pt_name
     (transform_to_influx_point (sample_env True) (PDict [])
        sample_topic (sample_delivery\<lparr>routing_key := []\<rparr>))
   = Some []"
  by code_simp

text \<open>
  Claim C8. The tag set of a built point is the static tag map of the topic with
  \<^verbatim>\<open>routing_key\<close> and \<^verbatim>\<open>exchange\<close> set last to the delivery's routing key and
  exchange: both are always present and override a static tag of the same name.
\<close>

theorem tags_from_delivery_win:
  assumes "transform_to_influx_point E msg tc m = Some p"
  shows "map_of (pt_tags p) =
     (map_of (rev (tc_tags tc)))
       (''routing_key'' \<mapsto> routing_key m, ''exchange'' \<mapsto> exchange m)"
proof -
  from assms obtain items t where
    p: "p = fold (add_field E tc) items
       (add_tags tc m (point_time t (new_point (measurement_name tc m))))"
    by (rule transform_SomeD)
  show ?thesis
    by (simp add: p fold_add_field_frame add_tags_map point_time_def new_point_def)
qed

theorem tags_from_delivery_win_witness:
  "map_of (pt_tags sample_point) ''routing_key'' = Some ''node.1.env''
   \<and> map_of (pt_tags sample_point) ''exchange'' = Some ''data''
   \<and> map_of (pt_tags sample_point) ''site'' = Some ''lab''"
  using tags_from_delivery_win [OF sample_transform_hi [of True]]
  by (simp add: sample_topic_def sample_delivery_def)

text \<open>
  Claim C9. Take an entry \<open>(k, v)\<close> of the parsed object with \<open>k\<close> other than
  \<^verbatim>\<open>timestamp\<close>, such that no later entry is mapped to the same destination name.
  Then the field named by the rename map's image of \<open>k\<close> (\<open>k\<close> itself if unmapped)
  holds \<open>v\<close> unchanged when \<open>v\<close> is an integer, a float or a boolean, and the string
  of \<open>v\<close> otherwise, whatever earlier entries were mapped to that name; and the field
  names are exactly the images of the keys other than \<^verbatim>\<open>timestamp\<close>.
\<close>

theorem fields_renamed_typed_last_wins:
  assumes "k \<noteq> ''timestamp''"
    and "\<forall>kv \<in> set ys. fst kv = ''timestamp'' \<or> field_name tc (fst kv) \<noteq> field_name tc k"
  shows "\<exists>p. transform_to_influx_point E (PDict (xs @ (k, v) # ys)) tc m = Some p
      \<and> map_of (pt_fields p)
           (case map_of (tc_field_mapping tc) k of Some d \<Rightarrow> d | None \<Rightarrow> k)
         = Some (case v of PInt i \<Rightarrow> v | PFloat f \<Rightarrow> v | PBool b \<Rightarrow> v
                 | _ \<Rightarrow> PStr (py_str E v))
      \<and> fst ` set (pt_fields p)
         = field_name tc ` (fst ` set (xs @ (k, v) # ys) - {''timestamp''})"
proof -
  let ?g = "\<lambda>kv. (field_name tc (fst kv), field_value E (snd kv))"
  let ?P = "\<lambda>kv. fst kv \<noteq> ''timestamp''"
  let ?items = "xs @ (k, v) # ys"
  obtain t where t: "resolve_time E (PDict ?items) = Inr t"
    using resolve_time_dict by blast
  define p where "p = fold (add_field E tc) ?items
       (add_tags tc m (point_time t (new_point (measurement_name tc m))))"
  have tr: "transform_to_influx_point E (PDict ?items) tc m = Some p"
    by (simp only: p_def transform_dict [OF t])
  have fm: "map_of (pt_fields p) = map_of (rev (map ?g (filter ?P ?items)))"
    using tr by (rule dict_fields)
  have "field_name tc k \<notin> fst ` set (map ?g (filter ?P ys))"
    using assms(2) by auto
  then have none: "map_of (rev (map ?g (filter ?P ys))) (field_name tc k) = None"
    by (simp add: map_of_eq_None_iff)
  have "map_of (pt_fields p) (field_name tc k) = Some (field_value E v)"
    using assms(1) none by (simp add: fm map_add_def)
  then have val: "map_of (pt_fields p)
           (case map_of (tc_field_mapping tc) k of Some d \<Rightarrow> d | None \<Rightarrow> k)
         = Some (case v of PInt i \<Rightarrow> v | PFloat f \<Rightarrow> v | PBool b \<Rightarrow> v
                 | _ \<Rightarrow> PStr (py_str E v))"
    by (simp add: field_name_def field_value_cases)
  have "dom (map_of (pt_fields p)) = dom (map_of (rev (map ?g (filter ?P ?items))))"
    by (simp only: fm)
  then have "fst ` set (pt_fields p) = fst ` set (map ?g (filter ?P ?items))"
    by (simp only: dom_map_of_conv_image_fst set_rev)
  also have "\<dots> = field_name tc ` (fst ` set ?items - {''timestamp''})"
    by force
  finally have keys: "fst ` set (pt_fields p)
      = field_name tc ` (fst ` set ?items - {''timestamp''})" .
  from tr val keys show ?thesis by blast
qed

theorem fields_renamed_typed_last_wins_witness:
  "\<exists>p. transform_to_influx_point (sample_env True)
          (PDict [(''temperature'', PInt 1), (''temp'', PInt 10), (''timestamp'', PInt 5)])
          sample_topic sample_delivery = Some p
      \<and> map_of (pt_fields p) ''temperature'' = Some (PInt 10)
      \<and> fst ` set (pt_fields p) = {''temperature''}"
proof -
  have a: "''temp'' \<noteq> ''timestamp''" by simp
  have b: "\<forall>kv \<in> set [(''timestamp'', PInt 5)].
      fst kv = ''timestamp'' \<or> field_name sample_topic (fst kv) \<noteq> field_name sample_topic ''temp''"
    by simp
  from fields_renamed_typed_last_wins [OF a b,
      of "sample_env True" "[(''temperature'', PInt 1)]" "PInt 10" sample_delivery]
  obtain p where tr: "transform_to_influx_point (sample_env True)
          (PDict ([(''temperature'', PInt 1)] @ (''temp'', PInt 10) # [(''timestamp'', PInt 5)]))
          sample_topic sample_delivery = Some p"
    and v: "map_of (pt_fields p)
           (case map_of (tc_field_mapping sample_topic) ''temp'' of
              Some d \<Rightarrow> d | None \<Rightarrow> ''temp'')
         = Some (case PInt 10 of PInt i \<Rightarrow> PInt 10 | PFloat f \<Rightarrow> PInt 10
                 | PBool b \<Rightarrow> PInt 10
                 | _ \<Rightarrow> PStr (py_str (sample_env True) (PInt 10)))"
    and k: "fst ` set (pt_fields p)
         = field_name sample_topic `
             (fst ` set ([(''temperature'', PInt 1)] @ (''temp'', PInt 10)
                          # [(''timestamp'', PInt 5)])
               - {''timestamp''})"
    by blast
  have "map_of (pt_fields p) ''temperature'' = Some (PInt 10)"
    using v by (simp add: sample_topic_def)
  moreover have "fst ` set (pt_fields p) = {''temperature''}"
    unfolding k by (auto simp add: field_name_def sample_topic_def)
  ultimately show ?thesis using tr by simp
qed

section \<open>Destination bucket\<close>

text \<open>
  Claim C10. With a default bucket \<open>d\<close> configured, the write of a built point
  targets the topic's \<^verbatim>\<open>influx_bucket\<close> only when that is a non-empty string; when
  it is absent, null or empty the write targets \<open>d\<close>.
\<close>

theorem bucket_override_truthy:
  assumes "parse_message E body = Inr msg"
    and "transform_to_influx_point E msg tc m = Some p"
    and "influxdb_bucket cfg = Some d"
  shows "\<exists>rest. message_callback E cfg m body tc =
     Write (case tc_influx_bucket tc of None \<Rightarrow> d | Some b \<Rightarrow> if b = [] then d else b) p # rest"
proof -
  have "resolve_bucket cfg tc =
      Inr (case tc_influx_bucket tc of None \<Rightarrow> d | Some b \<Rightarrow> if b = [] then d else b)"
    using assms(3) by (simp add: resolve_bucket_def split: option.splits)
  from callback_point [OF assms(1,2) this] show ?thesis
    by (simp split: option.splits)
qed

theorem bucket_override_truthy_witness:
  "\<exists>rest. message_callback (sample_env True) sample_cfg sample_delivery [0x68, 0x69] sample_topic
     = Write ''default'' sample_point # rest"
proof -
  have c: "influxdb_bucket sample_cfg = Some ''default''"
    by (simp add: sample_cfg_def)
  from bucket_override_truthy [OF sample_parse_hi [of True] sample_transform_hi c]
  show ?thesis by (simp add: sample_topic_def)
qed

end
